theory Spec2Isabelle
  imports Main "HOL-Library.Sublist"
begin

section \<open>Values, dictionaries and exceptions\<close>

text \<open>
  The pipeline of \<^verbatim>\<open>src/main.py\<close> threads one Python dictionary, the state, through a
  fixed sequence of collaborators. The values that the orchestrator itself inspects are
  \<^verbatim>\<open>None\<close>, strings and dictionaries with string keys; booleans, integers and lists are kept
  in the value type so that the checks of the source (\<^verbatim>\<open>not transcript\<close>, \<^verbatim>\<open>in\<close>,
  subscription) have all their branches. Floating point values are left out.

  A Python \<^verbatim>\<open>str\<close> is modelled by its UTF-8 bytes. All characters that the source compares
  against are ASCII, and neither a regular-expression match on ASCII characters, nor a
  substring test, nor a concatenation tells the two representations apart.

  A dictionary is an association list in insertion order. Reading and writing go to the
  first entry of a key: \<open>dict_set\<close> overwrites it in place, or appends a new entry, so
  that keys stay distinct, as in a Python \<^verbatim>\<open>dict\<close>.
\<close>

datatype pyval =
    PNone
  | PBool bool
  | PInt int
  | PStr string
  | PList "pyval list"
  | PDict "(string \<times> pyval) list"

type_synonym dict = "(string \<times> pyval) list"

definition dict_get :: "dict \<Rightarrow> string \<Rightarrow> pyval" where
  \<comment> \<open>\<^verbatim>\<open>d.get(k)\<close>: the value, or \<^verbatim>\<open>None\<close> for a missing key\<close>
  "dict_get d k = (case map_of d k of None \<Rightarrow> PNone | Some v \<Rightarrow> v)"

fun dict_set :: "string \<Rightarrow> pyval \<Rightarrow> dict \<Rightarrow> dict" where
  \<comment> \<open>\<^verbatim>\<open>d[k] = v\<close>\<close>
  "dict_set k v [] = [(k, v)]"
| "dict_set k v (p # ps) = (if fst p = k then (k, v) # ps else p # dict_set k v ps)"

fun truthy :: "pyval \<Rightarrow> bool" where
  \<comment> \<open>Python truth value testing, as used by \<^verbatim>\<open>or\<close> and \<^verbatim>\<open>not\<close>\<close>
  "truthy PNone = False"
| "truthy (PBool b) = b"
| "truthy (PInt n) = (n \<noteq> 0)"
| "truthy (PStr s) = (s \<noteq> [])"
| "truthy (PList xs) = (xs \<noteq> [])"
| "truthy (PDict d) = (d \<noteq> [])"

definition py_or :: "pyval \<Rightarrow> pyval \<Rightarrow> pyval" where
  \<comment> \<open>\<^verbatim>\<open>x or y\<close>\<close>
  "py_or x y = (if truthy x then x else y)"

fun type_name :: "pyval \<Rightarrow> string" where
  "type_name PNone = ''NoneType''"
| "type_name (PBool b) = ''bool''"
| "type_name (PInt n) = ''int''"
| "type_name (PStr s) = ''str''"
| "type_name (PList xs) = ''list''"
| "type_name (PDict d) = ''dict''"

definition quoted :: "string \<Rightarrow> string" where
  \<comment> \<open>a text between single quotes, as the interpreter prints type names and simple keys\<close>
  "quoted s = [CHR 0x27] @ s @ [CHR 0x27]"

text \<open>
  Exceptions are values. \<open>ValueError\<close> is raised by the source itself; \<open>TypeError\<close> and
  \<open>KeyError\<close> are raised by the interpreter inside the orchestrator (their message texts
  are CPython's, and no theorem below depends on the wording). What comes out of a
  collaborator is either \<open>Raised\<close>, any instance of class \<^verbatim>\<open>Exception\<close>, or \<open>RaisedBase\<close>,
  an instance of \<^verbatim>\<open>BaseException\<close> that is no \<^verbatim>\<open>Exception\<close> (\<^verbatim>\<open>asyncio.CancelledError\<close>,
  \<^verbatim>\<open>KeyboardInterrupt\<close>, \<^verbatim>\<open>SystemExit\<close>); both carry their \<^verbatim>\<open>str(e)\<close>.
\<close>

datatype exn =
    ValueError string
  | TypeError string
  | KeyError string
  | Raised string
  | RaisedBase string

fun exn_str :: "exn \<Rightarrow> string" where
  \<comment> \<open>\<^verbatim>\<open>str(e)\<close>; a \<^verbatim>\<open>KeyError\<close> prints the repr of its key\<close>
  "exn_str (ValueError m) = m"
| "exn_str (TypeError m) = m"
| "exn_str (KeyError k) = quoted k"
| "exn_str (Raised m) = m"
| "exn_str (RaisedBase m) = m"

fun is_exception :: "exn \<Rightarrow> bool" where
  \<comment> \<open>\<^verbatim>\<open>isinstance(e, Exception)\<close>, which is what an \<^verbatim>\<open>except Exception\<close> clause catches\<close>
  "is_exception (ValueError m) = True"
| "is_exception (TypeError m) = True"
| "is_exception (KeyError k) = True"
| "is_exception (Raised m) = True"
| "is_exception (RaisedBase m) = False"

section \<open>The video-id extractor\<close>

text \<open>
  \<^verbatim>\<open>re.search(r"(?:v=|\/)([0-9A-Za-z_-]{11})", video_url)\<close> scans the string from the left
  and stops at the first position where the pattern matches; group 1 is the eleven
  characters after the delimiter. Nothing is required of the character after the group.
\<close>

definition id_char :: "char \<Rightarrow> bool" where
  \<comment> \<open>the character class \<^verbatim>\<open>[0-9A-Za-z_-]\<close>\<close>
  "id_char c \<longleftrightarrow>
     c \<in> set ''0123456789ABCDEFGHIJKLMNOPQRSTUVWXYZabcdefghijklmnopqrstuvwxyz_-''"

definition match_group :: "string \<Rightarrow> string option" where
  \<comment> \<open>\<^verbatim>\<open>([0-9A-Za-z_-]{11})\<close> at the head of the string\<close>
  "match_group s =
     (if 11 \<le> length s \<and> list_all id_char (take 11 s) then Some (take 11 s) else None)"

definition delimited_id :: "string \<Rightarrow> string \<Rightarrow> bool" where
  \<comment> \<open>the two parts of a match: the delimiter \<^verbatim>\<open>(?:v=|\/)\<close> and the group\<close>
  "delimited_id d g \<longleftrightarrow> (d = ''v='' \<or> d = ''/'') \<and> length g = 11 \<and> list_all id_char g"

definition match_here :: "string \<Rightarrow> string option" where
  \<comment> \<open>the whole pattern at the head of the string: \<^verbatim>\<open>v=\<close> is tried first, then \<^verbatim>\<open>/\<close>\<close>
  "match_here s =
     (if prefix ''v='' s then match_group (drop 2 s)
      else if prefix ''/'' s then match_group (drop 1 s)
      else None)"

fun re_search :: "string \<Rightarrow> string option" where
  \<comment> \<open>\<^verbatim>\<open>re.search\<close>: the leftmost match; \<^verbatim>\<open>match.group(1)\<close> when there is one\<close>
  "re_search [] = None"
| "re_search (c # cs) =
     (case match_here (c # cs) of Some g \<Rightarrow> Some g | None \<Rightarrow> re_search cs)"

text \<open>
  \<^verbatim>\<open>extract_video_id\<close> mutates the dictionary it is given. The model returns the
  contents of that dictionary after the call together with the outcome: the returned
  state, or the exception raised. \<^verbatim>\<open>re.search\<close> raises \<^verbatim>\<open>TypeError\<close> on a subject that is
  not a string.
\<close>

definition extract_video_id :: "dict \<Rightarrow> dict \<times> (exn + dict)" where
  "extract_video_id state =
     (let video_url = py_or (dict_get state ''video_url'') (PStr '''') in
      case video_url of
        PStr u \<Rightarrow>
          (case re_search u of
             Some g \<Rightarrow>
               (let state' = dict_set ''video_id'' (PStr g) state in (state', Inr state'))
           | None \<Rightarrow> (state, Inl (ValueError ''Could not extract video ID from URL'')))
      | v \<Rightarrow>
          (state, Inl (TypeError (''expected string or bytes-like object, got ''
                                   @ quoted (type_name v)))))"

section \<open>Operations of the interpreter used by the orchestrator\<close>

fun py_in :: "string \<Rightarrow> pyval \<Rightarrow> exn + bool" where
  \<comment> \<open>\<^verbatim>\<open>needle in v\<close> for a string \<^verbatim>\<open>needle\<close>: substring of a string, element of a list,
      key of a dictionary; \<^verbatim>\<open>TypeError\<close> on a value that is no container\<close>
  "py_in needle (PStr s) = Inr (sublist needle s)"
| "py_in needle (PList xs) = Inr (PStr needle \<in> set xs)"
| "py_in needle (PDict d) = Inr (needle \<in> fst ` set d)"
| "py_in needle v =
     Inl (TypeError (''argument of type '' @ quoted (type_name v) @ '' is not iterable''))"

fun py_subscript :: "pyval \<Rightarrow> string \<Rightarrow> exn + pyval" where
  \<comment> \<open>\<^verbatim>\<open>v[k]\<close> for a string key \<^verbatim>\<open>k\<close>\<close>
  "py_subscript (PDict d) k =
     (case map_of d k of Some v \<Rightarrow> Inr v | None \<Rightarrow> Inl (KeyError k))"
| "py_subscript (PStr s) k =
     Inl (TypeError (''string indices must be integers, not '' @ quoted ''str''))"
| "py_subscript (PList xs) k =
     Inl (TypeError ''list indices must be integers or slices, not str'')"
| "py_subscript v k =
     Inl (TypeError (quoted (type_name v) @ '' object is not subscriptable''))"

fun py_format :: "pyval \<Rightarrow> string" where
  \<comment> \<open>the text that an f-string inserts for a value. The pipeline formats \<^verbatim>\<open>video_url\<close>
      only, after \<^verbatim>\<open>extract_video_id\<close> has accepted it, so only the equation for
      strings is ever used (lemma \<open>extract_video_id_str\<close> below); the printed form of the
      other values is not modelled.\<close>
  "py_format (PStr s) = s"
| "py_format v = []"

section \<open>Collaborators and the call log\<close>

text \<open>
  The transcript fetcher, the section generators, the domain aligner and the rewriter
  are imported from other modules; the orchestrator is modelled for arbitrary ones. A
  collaborator receives the state and either raises or returns. The transcript fetcher
  and the first two generators have their return value bound to a local variable while
  the state object they were given stays in use, so they yield the contents of that
  object after the call together with the returned value. The other nine are called as
  \<^verbatim>\<open>state = await f(state)\<close> and yield the returned state, a dictionary.

  Each run carries the log of the collaborator calls it made, in order, every call with
  the state it was given.
\<close>

record collaborators =
  get_transcript_with_backoff :: "dict \<Rightarrow> exn + dict \<times> pyval"
  extract_specific_details :: "dict \<Rightarrow> exn + dict \<times> pyval"
  generate_topic_keyword :: "dict \<Rightarrow> exn + dict \<times> pyval"
  generate_intro :: "dict \<Rightarrow> exn + dict"
  refine_intro :: "dict \<Rightarrow> exn + dict"
  generate_guide :: "dict \<Rightarrow> exn + dict"
  generate_issue_troubleshooting :: "dict \<Rightarrow> exn + dict"
  generate_conclusion :: "dict \<Rightarrow> exn + dict"
  generate_cta :: "dict \<Rightarrow> exn + dict"
  generate_customization_tips :: "dict \<Rightarrow> exn + dict"
  domain_aligned :: "dict \<Rightarrow> exn + dict"
  rewrite_blog :: "dict \<Rightarrow> exn + dict"

datatype step =
    FetchTranscript
  | ExtractSpecificDetails
  | GenerateTopicKeyword
  | GenerateIntro
  | RefineIntro
  | GenerateGuide
  | GenerateIssueTroubleshooting
  | GenerateConclusion
  | GenerateCTA
  | GenerateCustomizationTips
  | DomainAligned
  | RewriteBlog

datatype call = Call step dict

type_synonym 'a run = "call list \<times> (exn + 'a)"

definition ret :: "'a \<Rightarrow> 'a run" where
  "ret x = ([], Inr x)"

definition raise :: "exn \<Rightarrow> 'a run" where
  "raise e = ([], Inl e)"

definition lift :: "exn + 'a \<Rightarrow> 'a run" where
  \<comment> \<open>a step of the orchestrator itself: it may raise, and calls no collaborator\<close>
  "lift r = ([], r)"

definition invoke :: "step \<Rightarrow> (dict \<Rightarrow> exn + 'a) \<Rightarrow> dict \<Rightarrow> 'a run" where
  "invoke nm f state = ([Call nm state], f state)"

definition run_bind :: "'a run \<Rightarrow> ('a \<Rightarrow> 'b run) \<Rightarrow> 'b run" where
  \<comment> \<open>sequencing: an exception ends the run, and the log of what was called stays\<close>
  "run_bind m k =
     (case m of
        (tr, Inl e) \<Rightarrow> (tr, Inl e)
      | (tr, Inr x) \<Rightarrow> (case k x of (tr', r) \<Rightarrow> (tr @ tr', r)))"

section \<open>The orchestrator\<close>

definition transcript_missing :: "pyval \<Rightarrow> exn + bool" where
  \<comment> \<open>\<^verbatim>\<open>not transcript or "Failed after multiple retries" in transcript\<close>\<close>
  "transcript_missing transcript =
     (if \<not> truthy transcript then Inr True
      else py_in ''Failed after multiple retries'' transcript)"

definition final_blog_payload :: "dict \<Rightarrow> exn + pyval" where
  \<comment> \<open>\<^verbatim>\<open>state["final_blog"]["Polished_Blog"]\<close>\<close>
  "final_blog_payload state =
     (case py_subscript (PDict state) ''final_blog'' of
        Inl e \<Rightarrow> Inl e
      | Inr final_blog \<Rightarrow> py_subscript final_blog ''Polished_Blog'')"

definition combined_data_keyword_specific_details :: "dict \<Rightarrow> pyval" where
  "combined_data_keyword_specific_details state =
     PDict [(''topic_keyword'', dict_get state ''extracted_keywords''),
            (''specific_details'', dict_get state ''extracted_section'')]"

definition combined_data :: "dict \<Rightarrow> pyval" where
  "combined_data state =
     PDict [(''introduction'', dict_get state ''refined_intro''),
            (''guide'', dict_get state ''guide''),
            (''issue_troubleshoot'', dict_get state ''issue_troubleshoot''),
            (''conclusion'', dict_get state ''conclusion''),
            (''cta'', dict_get state ''cta''),
            (''customization_tips'', dict_get state ''customization_tips'')]"

text \<open>
  \<^verbatim>\<open>full_pipeline\<close>, statement by statement. The \<^verbatim>\<open>print\<close> before the final return writes
  to standard output only and is not modelled.
\<close>

definition full_pipeline :: "collaborators \<Rightarrow> dict \<Rightarrow> dict run" where
  "full_pipeline c state =
     (let video_url = py_or (dict_get state ''video_url'') (PStr '''');
          domain_url = py_or (dict_get state ''domain_url'') (PStr '''');
          raw_blog = py_or (dict_get state ''raw_blog'') (PStr '''');
          results = []
      in
      case extract_video_id state of
        (state, Inl e) \<Rightarrow> raise e
      | (state, Inr _) \<Rightarrow>
      run_bind (invoke FetchTranscript (get_transcript_with_backoff c) state)
        (\<lambda>(state, transcript).
      run_bind (lift (transcript_missing transcript)) (\<lambda>missing.
      if missing
      then ret [(''error'', PStr (''Transcript not available for: '' @ py_format video_url))]
      else
      let state = dict_set ''transcript'' transcript state in
      run_bind (invoke ExtractSpecificDetails (extract_specific_details c) state)
        (\<lambda>(state, specific_details).
      run_bind (invoke GenerateTopicKeyword (generate_topic_keyword c) state)
        (\<lambda>(state, topic_keyword).
      let state = dict_set ''combined_data_keyword_specific_details''
                    (combined_data_keyword_specific_details state) state in
      run_bind (invoke GenerateIntro (generate_intro c) state) (\<lambda>state.
      run_bind (invoke RefineIntro (refine_intro c) state) (\<lambda>state.
      run_bind (invoke GenerateGuide (generate_guide c) state) (\<lambda>state.
      run_bind (invoke GenerateIssueTroubleshooting (generate_issue_troubleshooting c) state)
        (\<lambda>state.
      run_bind (invoke GenerateConclusion (generate_conclusion c) state) (\<lambda>state.
      run_bind (invoke GenerateCTA (generate_cta c) state) (\<lambda>state.
      run_bind (invoke GenerateCustomizationTips (generate_customization_tips c) state)
        (\<lambda>state.
      let state = dict_set ''combined_data'' (combined_data state) state in
      run_bind (invoke DomainAligned (domain_aligned c) state) (\<lambda>state.
      run_bind (invoke RewriteBlog (rewrite_blog c) state) (\<lambda>state.
      run_bind (lift (final_blog_payload state)) (\<lambda>polished.
      let results = dict_set ''Final_Blog'' polished results in
      ret results)))))))))))))))"

section \<open>The endpoint\<close>

record PipelineRequest =
  video_url :: string
  domain_url :: string
  raw_blog :: string

definition initial_state :: "PipelineRequest \<Rightarrow> dict" where
  "initial_state request =
     [(''video_url'', PStr (video_url request)),
      (''domain_url'', PStr (domain_url request)),
      (''raw_blog'', PStr (raw_blog request)),
      (''video_id'', PNone),
      (''transcript'', PNone),
      (''topic_keyword'', PNone),
      (''specific_details'', PNone),
      (''introduction'', PNone),
      (''refined_intro'', PNone),
      (''guide'', PNone),
      (''issue_troubleshoot'', PNone),
      (''conclusion'', PNone),
      (''cta'', PNone),
      (''customization_tips'', PNone),
      (''domain_aligned'', PNone),
      (''final_blog'', PNone)]"

text \<open>
  The handler either returns the result dictionary, which the framework sends as the JSON
  body of a response with status 200 (the route declares no other status), or raises
  \<^verbatim>\<open>HTTPException(status_code=500, detail=str(e))\<close>, which the framework answers with
  that status and the body \<^verbatim>\<open>{"detail": ...}\<close>. The clause is \<^verbatim>\<open>except Exception\<close>: an
  exception that is no instance of \<^verbatim>\<open>Exception\<close> is not caught and leaves the handler as it
  is, so that the handler produces no response for it. \<^verbatim>\<open>traceback.print_exc()\<close> writes
  to standard error only and is not modelled.
\<close>

datatype handler_result = Returned dict | HTTPException nat string | Uncaught exn

definition run_pipeline :: "collaborators \<Rightarrow> PipelineRequest \<Rightarrow> call list \<times> handler_result" where
  "run_pipeline c request =
     (case full_pipeline c (initial_state request) of
        (tr, Inr results) \<Rightarrow> (tr, Returned results)
      | (tr, Inl e) \<Rightarrow>
          (tr, if is_exception e then HTTPException 500 (exn_str e) else Uncaught e))"

fun status_code :: "handler_result \<Rightarrow> nat option" where
  "status_code (Returned body) = Some 200"
| "status_code (HTTPException code detail) = Some code"
| "status_code (Uncaught e) = None"

fun response_body :: "handler_result \<Rightarrow> dict option" where
  "response_body (Returned body) = Some body"
| "response_body (HTTPException code detail) = Some [(''detail'', PStr detail)]"
| "response_body (Uncaught e) = None"

fun call_step :: "call \<Rightarrow> step" where
  "call_step (Call nm state) = nm"



section \<open>An example request and example collaborators\<close>

definition example_request :: PipelineRequest where
  "example_request =
     \<lparr>video_url = ''https://youtu.be/abc12345678'',
      domain_url = ''https://example.com'',
      raw_blog = ''draft text''\<rparr>"

definition example_collaborators :: collaborators where
  "example_collaborators =
     \<lparr>get_transcript_with_backoff = (\<lambda>s. Inr (s, PStr ''hello'')),
      extract_specific_details =
        (\<lambda>s. Inr (dict_set ''extracted_section'' (PStr ''details'') s, PNone)),
      generate_topic_keyword =
        (\<lambda>s. Inr (dict_set ''extracted_keywords'' (PStr ''keywords'') s, PNone)),
      generate_intro = Inr,
      refine_intro = Inr,
      generate_guide = Inr,
      generate_issue_troubleshooting = Inr,
      generate_conclusion = Inr,
      generate_cta = Inr,
      generate_customization_tips = Inr,
      domain_aligned = Inr,
      rewrite_blog =
        (\<lambda>s. Inr (dict_set ''final_blog'' (PDict [(''Polished_Blog'', PStr ''blog'')]) s))\<rparr>"

definition failing_transcript_collaborators :: collaborators where
  \<comment> \<open>the transcript fetcher gives up and returns its marker text\<close>
  "failing_transcript_collaborators =
     example_collaborators
       \<lparr>get_transcript_with_backoff :=
          (\<lambda>s. Inr (s, PStr ''Error: Failed after multiple retries''))\<rparr>"

definition failing_details_collaborators :: collaborators where
  \<comment> \<open>the first generator raises\<close>
  "failing_details_collaborators =
     example_collaborators
       \<lparr>extract_specific_details := (\<lambda>s. Inl (Raised ''details failed''))\<rparr>"


definition example_state :: dict where
  \<comment> \<open>a small state for running \<open>full_pipeline\<close> directly\<close>
  "example_state = [(''video_url'', PStr ''watch?v=abc12345678'')]"

section \<open>Facts about the regular-expression search\<close>

lemma match_group_Some:
  "match_group s = Some g \<longleftrightarrow> (\<exists>rest. s = g @ rest \<and> length g = 11 \<and> list_all id_char g)"
proof
  assume "match_group s = Some g"
  then have g: "g = take 11 s" and len: "11 \<le> length s" and ok: "list_all id_char (take 11 s)"
    by (auto simp: match_group_def split: if_splits)
  have "s = g @ drop 11 s" using g by simp
  moreover have "length g = 11" using g len by simp
  ultimately show "\<exists>rest. s = g @ rest \<and> length g = 11 \<and> list_all id_char g"
    using ok g by blast
next
  assume "\<exists>rest. s = g @ rest \<and> length g = 11 \<and> list_all id_char g"
  then show "match_group s = Some g"
    by (auto simp: match_group_def)
qed

lemma delimited_split:
  "(\<exists>d rest. s = d @ g @ rest \<and> delimited_id d g) \<longleftrightarrow>
     ((\<exists>rest. s = CHR ''v'' # CHR ''='' # g @ rest) \<or> (\<exists>rest. s = CHR ''/'' # g @ rest))
     \<and> length g = 11 \<and> list_all id_char g"
proof
  assume "\<exists>d rest. s = d @ g @ rest \<and> delimited_id d g"
  then obtain d rest where s: "s = d @ g @ rest" and d: "d = ''v='' \<or> d = ''/''"
    and g: "length g = 11" "list_all id_char g"
    unfolding delimited_id_def by blast
  from d s have "s = CHR ''v'' # CHR ''='' # g @ rest \<or> s = CHR ''/'' # g @ rest"
    by auto
  with g show "((\<exists>rest. s = CHR ''v'' # CHR ''='' # g @ rest) \<or> (\<exists>rest. s = CHR ''/'' # g @ rest))
     \<and> length g = 11 \<and> list_all id_char g"
    by blast
next
  assume r: "((\<exists>rest. s = CHR ''v'' # CHR ''='' # g @ rest) \<or> (\<exists>rest. s = CHR ''/'' # g @ rest))
     \<and> length g = 11 \<and> list_all id_char g"
  then consider rest where "s = ''v='' @ g @ rest" | rest where "s = ''/'' @ g @ rest"
    by auto
  then show "\<exists>d rest. s = d @ g @ rest \<and> delimited_id d g"
  proof cases
    case 1
    moreover have "delimited_id ''v='' g" using r by (simp add: delimited_id_def)
    ultimately show ?thesis by blast
  next
    case 2
    moreover have "delimited_id ''/'' g" using r by (simp add: delimited_id_def)
    ultimately show ?thesis by blast
  qed
qed

lemma match_here_Some:
  "match_here s = Some g \<longleftrightarrow> (\<exists>d rest. s = d @ g @ rest \<and> delimited_id d g)"
  unfolding delimited_split
proof (cases "prefix ''v='' s")
  case True
  then obtain r where s: "s = CHR ''v'' # CHR ''='' # r" by (auto simp: prefix_def)
  then have "match_here s = match_group r" by (simp add: match_here_def)
  then show "match_here s = Some g \<longleftrightarrow>
     ((\<exists>rest. s = CHR ''v'' # CHR ''='' # g @ rest) \<or> (\<exists>rest. s = CHR ''/'' # g @ rest))
     \<and> length g = 11 \<and> list_all id_char g"
    using s by (simp add: match_group_Some)
next
  case v: False
  show "match_here s = Some g \<longleftrightarrow>
     ((\<exists>rest. s = CHR ''v'' # CHR ''='' # g @ rest) \<or> (\<exists>rest. s = CHR ''/'' # g @ rest))
     \<and> length g = 11 \<and> list_all id_char g"
  proof (cases "prefix ''/'' s")
    case True
    then obtain r where s: "s = CHR ''/'' # r" by (auto simp: prefix_def)
    then have "match_here s = match_group r" by (simp add: match_here_def)
    then show ?thesis using s by (simp add: match_group_Some)
  next
    case False
    with v have "match_here s = None" by (simp add: match_here_def)
    moreover from v have "\<not> (\<exists>rest. s = CHR ''v'' # CHR ''='' # g @ rest)"
      by (auto simp: prefix_def)
    moreover from False have "\<not> (\<exists>rest. s = CHR ''/'' # g @ rest)"
      by (auto simp: prefix_def)
    ultimately show ?thesis by simp
  qed
qed

lemma match_here_None:
  "match_here s = None \<longleftrightarrow> (\<forall>d g post. s = d @ g @ post \<longrightarrow> \<not> delimited_id d g)"
proof -
  have "match_here s = None \<longleftrightarrow> (\<forall>g. match_here s \<noteq> Some g)" by auto
  then show ?thesis unfolding match_here_Some by blast
qed

lemma no_pattern_Cons:
  "(\<forall>pre d g post. c # cs = pre @ d @ g @ post \<longrightarrow> \<not> delimited_id d g) \<longleftrightarrow>
      (\<forall>d g post. c # cs = d @ g @ post \<longrightarrow> \<not> delimited_id d g) \<and>
      (\<forall>pre d g post. cs = pre @ d @ g @ post \<longrightarrow> \<not> delimited_id d g)"
    (is "?L \<longleftrightarrow> ?H \<and> ?T")
proof
  assume L: ?L
  have ?H
  proof (intro allI impI)
    fix d g post assume "c # cs = d @ g @ post"
    then have "c # cs = [] @ d @ g @ post" by simp
    with L show "\<not> delimited_id d g" by blast
  qed
  moreover have ?T
  proof (intro allI impI)
    fix pre d g post assume "cs = pre @ d @ g @ post"
    then have "c # cs = (c # pre) @ d @ g @ post" by simp
    with L show "\<not> delimited_id d g" by blast
  qed
  ultimately show "?H \<and> ?T" ..
next
  assume HT: "?H \<and> ?T"
  show ?L
  proof (intro allI impI)
    fix pre d g post assume eq: "c # cs = pre @ d @ g @ post"
    show "\<not> delimited_id d g"
    proof (cases pre)
      case Nil
      with eq have "c # cs = d @ g @ post" by simp
      with HT show ?thesis by blast
    next
      case (Cons a pre')
      with eq have "cs = pre' @ d @ g @ post" by simp
      with HT show ?thesis by blast
    qed
  qed
qed

lemma re_search_None:
  "re_search s = None \<longleftrightarrow> (\<forall>pre d g post. s = pre @ d @ g @ post \<longrightarrow> \<not> delimited_id d g)"
proof (induction s)
  case Nil
  then show ?case by (simp add: delimited_id_def)
next
  case (Cons c cs)
  have "re_search (c # cs) = None \<longleftrightarrow> match_here (c # cs) = None \<and> re_search cs = None"
    by (simp split: option.splits)
  then show ?case
    unfolding no_pattern_Cons [of c cs] match_here_None Cons.IH .
qed

lemma re_search_Some:
  assumes "s = pre @ d @ g @ post" and "delimited_id d g"
    and "\<forall>pre' d' g' post'. s = pre' @ d' @ g' @ post' \<and> delimited_id d' g'
           \<longrightarrow> length pre \<le> length pre'"
  shows "re_search s = Some g"
  using assms
proof (induction s arbitrary: pre)
  case Nil
  then show ?case by (simp add: delimited_id_def)
next
  case (Cons c cs)
  show ?case
  proof (cases pre)
    case Nil
    with Cons.prems(1,2) have "\<exists>d rest. c # cs = d @ g @ rest \<and> delimited_id d g"
      by auto
    then have "match_here (c # cs) = Some g"
      unfolding match_here_Some .
    then show ?thesis by simp
  next
    case (Cons a pre')
    with Cons.prems(1) have cs: "cs = pre' @ d @ g @ post" by simp
    have none: "match_here (c # cs) = None"
      unfolding match_here_None
    proof (intro allI impI)
      fix d' g' rest assume eq: "c # cs = d' @ g' @ rest"
      show "\<not> delimited_id d' g'"
      proof
        assume "delimited_id d' g'"
        with eq have "c # cs = [] @ d' @ g' @ rest \<and> delimited_id d' g'" by simp
        with Cons.prems(3) have "length pre \<le> length ([]::string)" by blast
        with Cons show False by simp
      qed
    qed
    have "re_search cs = Some g"
    proof (rule Cons.IH [OF cs Cons.prems(2)], intro allI impI)
      fix pre'' d' g' post'
      assume "cs = pre'' @ d' @ g' @ post' \<and> delimited_id d' g'"
      then have "c # cs = (c # pre'') @ d' @ g' @ post' \<and> delimited_id d' g'" by simp
      with Cons.prems(3) have "length pre \<le> length (c # pre'')" by blast
      with Cons show "length pre' \<le> length pre''" by simp
    qed
    with none show ?thesis by simp
  qed
qed

lemma no_earlier_match:
  assumes "list_all (\<lambda>i. match_here (drop i (pre @ rest)) = None) [0..<length pre]"
  shows "\<forall>pre' d' g' post'. pre @ rest = pre' @ d' @ g' @ post' \<and> delimited_id d' g'
           \<longrightarrow> length pre \<le> length pre'"
proof (intro allI impI)
  fix pre' d' g' post'
  assume h: "pre @ rest = pre' @ d' @ g' @ post' \<and> delimited_id d' g'"
  show "length pre \<le> length pre'"
  proof (rule ccontr)
    assume "\<not> length pre \<le> length pre'"
    then have lt: "length pre' < length pre" by simp
    with assms have "match_here (drop (length pre') (pre @ rest)) = None"
      by (simp add: list_all_iff)
    moreover from h have "drop (length pre') (pre @ rest) = d' @ g' @ post'" by simp
    moreover from h have "match_here (d' @ g' @ post') = Some g'"
      unfolding match_here_Some by blast
    ultimately show False by simp
  qed
qed

section \<open>Facts about runs, dictionaries and the extractor\<close>

lemma run_bind_Inl [simp]: "run_bind (tr, Inl e) k = (tr, Inl e)"
  by (simp add: run_bind_def)

lemma run_bind_Inr [simp]: "run_bind (tr, Inr x) k = (tr @ fst (k x), snd (k x))"
  by (simp add: run_bind_def split: prod.splits)

lemma dict_get_dict_set [simp]: "dict_get (dict_set k v d) k = v"
  by (induction d) (auto simp: dict_get_def)

lemma extract_video_id_str:
  "extract_video_id state = (s', Inr r) \<Longrightarrow>
     \<exists>u g. py_or (dict_get state ''video_url'') (PStr '''') = PStr u \<and> re_search u = Some g
        \<and> s' = dict_set ''video_id'' (PStr g) state \<and> r = s'"
  by (auto simp: extract_video_id_def Let_def split: pyval.splits option.splits)

lemma initial_url [simp]:
  "py_or (dict_get (initial_state request) ''video_url'') (PStr '''') = PStr (video_url request)"
  by (simp add: py_or_def dict_get_def initial_state_def)

lemma py_or_str: "py_or (PStr u) (PStr '''') = PStr u"
  by (simp add: py_or_def)

lemma map_of_dict_set: "map_of (dict_set k v d) k = Some v"
  by (induction d) auto

lemma fst_run_bind:
  "fst (run_bind m k) = fst m @ (case snd m of Inl e \<Rightarrow> [] | Inr x \<Rightarrow> fst (k x))"
  by (cases m) (simp add: run_bind_def split: sum.splits prod.splits)

lemma snd_run_bind:
  "snd (run_bind m k) = (case snd m of Inl e \<Rightarrow> Inl e | Inr x \<Rightarrow> snd (k x))"
  by (cases m) (simp add: run_bind_def split: sum.splits prod.splits)


lemma snd_run_pipeline:
  "snd (run_pipeline c request) =
     (case snd (full_pipeline c (initial_state request)) of
        Inl e \<Rightarrow> if is_exception e then HTTPException 500 (exn_str e) else Uncaught e
      | Inr results \<Rightarrow> Returned results)"
  by (cases "full_pipeline c (initial_state request)")
     (simp add: run_pipeline_def split: sum.splits)

lemma full_pipeline_calls:
  assumes "extract_video_id state0 = (s1, Inr r)"
    and "get_transcript_with_backoff c s1 = Inr (s2, PStr t)"
    and "t \<noteq> []" and "\<not> sublist ''Failed after multiple retries'' t"
    and "extract_specific_details c (dict_set ''transcript'' (PStr t) s2) = Inr (s3, r3)"
    and "generate_topic_keyword c s3 = Inr (s4, r4)"
    and "generate_intro c (dict_set ''combined_data_keyword_specific_details''
                             (combined_data_keyword_specific_details s4) s4) = Inr s5"
    and "refine_intro c s5 = Inr s6"
    and "generate_guide c s6 = Inr s7"
    and "generate_issue_troubleshooting c s7 = Inr s8"
    and "generate_conclusion c s8 = Inr s9"
    and "generate_cta c s9 = Inr s10"
    and "generate_customization_tips c s10 = Inr s11"
    and "domain_aligned c (dict_set ''combined_data'' (combined_data s11) s11) = Inr s12"
  shows "fst (full_pipeline c state0) =
           [Call FetchTranscript s1,
            Call ExtractSpecificDetails (dict_set ''transcript'' (PStr t) s2),
            Call GenerateTopicKeyword s3,
            Call GenerateIntro (dict_set ''combined_data_keyword_specific_details''
                                  (combined_data_keyword_specific_details s4) s4),
            Call RefineIntro s5,
            Call GenerateGuide s6,
            Call GenerateIssueTroubleshooting s7,
            Call GenerateConclusion s8,
            Call GenerateCTA s9,
            Call GenerateCustomizationTips s10,
            Call DomainAligned (dict_set ''combined_data'' (combined_data s11) s11),
            Call RewriteBlog s12]"
    and "snd (full_pipeline c state0) =
           (case rewrite_blog c s12 of
              Inl e \<Rightarrow> Inl e
            | Inr s13 \<Rightarrow>
                (case final_blog_payload s13 of
                   Inl e \<Rightarrow> Inl e
                 | Inr v \<Rightarrow> Inr [(''Final_Blog'', v)]))"
proof -
  have m: "transcript_missing (PStr t) = Inr False"
    using assms(3,4) by (simp add: transcript_missing_def)
  show "fst (full_pipeline c state0) =
           [Call FetchTranscript s1,
            Call ExtractSpecificDetails (dict_set ''transcript'' (PStr t) s2),
            Call GenerateTopicKeyword s3,
            Call GenerateIntro (dict_set ''combined_data_keyword_specific_details''
                                  (combined_data_keyword_specific_details s4) s4),
            Call RefineIntro s5,
            Call GenerateGuide s6,
            Call GenerateIssueTroubleshooting s7,
            Call GenerateConclusion s8,
            Call GenerateCTA s9,
            Call GenerateCustomizationTips s10,
            Call DomainAligned (dict_set ''combined_data'' (combined_data s11) s11),
            Call RewriteBlog s12]"
    using assms(1,2,5-14) m
    by (simp add: full_pipeline_def Let_def invoke_def lift_def ret_def fst_run_bind
          del: run_bind_Inr run_bind_Inl split: sum.splits)
  show "snd (full_pipeline c state0) =
           (case rewrite_blog c s12 of
              Inl e \<Rightarrow> Inl e
            | Inr s13 \<Rightarrow>
                (case final_blog_payload s13 of
                   Inl e \<Rightarrow> Inl e
                 | Inr v \<Rightarrow> Inr [(''Final_Blog'', v)]))"
    using assms(1,2,5-14) m
    by (simp add: full_pipeline_def Let_def invoke_def lift_def ret_def snd_run_bind
          del: run_bind_Inr run_bind_Inl split: sum.splits)
qed







section \<open>The video-id extractor: claims\<close>

text \<open>
  Claim C3, as the code has it. Let \<open>url\<close> be the string stored under \<^verbatim>\<open>video_url\<close>.
  If \<open>url\<close> splits as \<open>pre @ d @ g @ post\<close> where \<open>d\<close> is \<^verbatim>\<open>v=\<close> or \<^verbatim>\<open>/\<close> and \<open>g\<close> is
  eleven characters out of letters, digits, underscore and hyphen, and no such split of
  \<open>url\<close> starts further to the left, then the extractor writes \<open>g\<close> into the state as
  \<^verbatim>\<open>video_id\<close> and returns that state. If \<open>url\<close> has no such split at all, the extractor
  raises \<^verbatim>\<open>ValueError("Could not extract video ID from URL")\<close> and leaves the state as it
  was. Nothing is required of the character after \<open>g\<close>.
\<close>

theorem extract_video_id_leftmost_match:
  assumes "dict_get state ''video_url'' = PStr url"
  shows "(url = pre @ d @ g @ post \<and> delimited_id d g \<and>
            (\<forall>pre' d' g' post'. url = pre' @ d' @ g' @ post' \<and> delimited_id d' g'
                \<longrightarrow> length pre \<le> length pre')
          \<longrightarrow> extract_video_id state =
                (dict_set ''video_id'' (PStr g) state,
                 Inr (dict_set ''video_id'' (PStr g) state)))
       \<and> ((\<forall>pre' d' g' post'. url = pre' @ d' @ g' @ post' \<longrightarrow> \<not> delimited_id d' g')
          \<longrightarrow> extract_video_id state =
                (state, Inl (ValueError ''Could not extract video ID from URL'')))"
proof (intro conjI impI)
  assume "url = pre @ d @ g @ post \<and> delimited_id d g \<and>
            (\<forall>pre' d' g' post'. url = pre' @ d' @ g' @ post' \<and> delimited_id d' g'
                \<longrightarrow> length pre \<le> length pre')"
  then have "re_search url = Some g"
    using re_search_Some [of url pre d g post] by blast
  then show "extract_video_id state =
                (dict_set ''video_id'' (PStr g) state,
                 Inr (dict_set ''video_id'' (PStr g) state))"
    using assms by (simp add: extract_video_id_def py_or_str Let_def)
next
  assume "\<forall>pre' d' g' post'. url = pre' @ d' @ g' @ post' \<longrightarrow> \<not> delimited_id d' g'"
  then have "re_search url = None"
    unfolding re_search_None .
  then show "extract_video_id state =
                (state, Inl (ValueError ''Could not extract video ID from URL''))"
    using assms by (simp add: extract_video_id_def py_or_str Let_def)
qed

text \<open>
  Both halves at concrete inputs: a \<^verbatim>\<open>v=\<close> match after six other characters, and a URL
  without any match.
\<close>

theorem extract_video_id_leftmost_match_witness:
  "extract_video_id [(''video_url'', PStr ''watch?v=abc12345678'')] =
     ([(''video_url'', PStr ''watch?v=abc12345678''), (''video_id'', PStr ''abc12345678'')],
      Inr [(''video_url'', PStr ''watch?v=abc12345678''), (''video_id'', PStr ''abc12345678'')])
   \<and> extract_video_id [(''video_url'', PStr ''https://example.com'')] =
     ([(''video_url'', PStr ''https://example.com'')],
      Inl (ValueError ''Could not extract video ID from URL''))"
proof -
  have get1: "dict_get [(''video_url'', PStr ''watch?v=abc12345678'')] ''video_url''
                = PStr ''watch?v=abc12345678''"
    by (simp add: dict_get_def)
  have split1: "''watch?v=abc12345678'' = ''watch?'' @ ''v='' @ ''abc12345678'' @ []"
    by simp
  have id1: "delimited_id ''v='' ''abc12345678''"
    by (simp add: delimited_id_def id_char_def)
  have "list_all (\<lambda>i. match_here (drop i (''watch?'' @ ''v=abc12345678'')) = None)
          [0..<length ''watch?'']"
    by code_simp
  from no_earlier_match [OF this]
  have left1: "\<forall>pre' d' g' post'.
        ''watch?v=abc12345678'' = pre' @ d' @ g' @ post' \<and> delimited_id d' g'
          \<longrightarrow> length ''watch?'' \<le> length pre'"
    by simp
  have get2: "dict_get [(''video_url'', PStr ''https://example.com'')] ''video_url''
                = PStr ''https://example.com''"
    by (simp add: dict_get_def)
  have "re_search ''https://example.com'' = None"
    by (simp add: match_here_def match_group_def id_char_def)
  then have none2: "\<forall>pre' d' g' post'.
        ''https://example.com'' = pre' @ d' @ g' @ post' \<longrightarrow> \<not> delimited_id d' g'"
    unfolding re_search_None .
  from extract_video_id_leftmost_match [OF get1, of "''watch?''" "''v=''" "''abc12345678''" "[]"]
    split1 id1 left1
  have a: "extract_video_id [(''video_url'', PStr ''watch?v=abc12345678'')] =
     (dict_set ''video_id'' (PStr ''abc12345678'') [(''video_url'', PStr ''watch?v=abc12345678'')],
      Inr (dict_set ''video_id'' (PStr ''abc12345678'') [(''video_url'', PStr ''watch?v=abc12345678'')]))"
    by blast
  from extract_video_id_leftmost_match [OF get2] none2
  have b: "extract_video_id [(''video_url'', PStr ''https://example.com'')] =
     ([(''video_url'', PStr ''https://example.com'')],
      Inl (ValueError ''Could not extract video ID from URL''))"
    by blast
  from a b show ?thesis by simp
qed

text \<open>
  Claim C3 as stated does not hold: this URL ends in \<^verbatim>\<open>/\<close> followed by exactly the eleven
  characters \<^verbatim>\<open>dQw4w9WgXcQ\<close>, yet the extractor returns \<^verbatim>\<open>youtube-noc\<close>, the eleven
  characters after the first \<^verbatim>\<open>/\<close> that is followed by eleven characters of the class.
\<close>

theorem extract_video_id_first_match_counterexample:
  "''https://youtube-nocookie.com/embed/dQw4w9WgXcQ''
      = ''https://youtube-nocookie.com/embed'' @ ''/'' @ ''dQw4w9WgXcQ'' @ []
   \<and> delimited_id ''/'' ''dQw4w9WgXcQ''
   \<and> snd (extract_video_id
            [(''video_url'', PStr ''https://youtube-nocookie.com/embed/dQw4w9WgXcQ'')])
      = Inr [(''video_url'', PStr ''https://youtube-nocookie.com/embed/dQw4w9WgXcQ''),
             (''video_id'', PStr ''youtube-noc'')]
   \<and> ''youtube-noc'' \<noteq> ''dQw4w9WgXcQ''"
  by (simp add: delimited_id_def id_char_def extract_video_id_def py_or_def dict_get_def
        match_here_def match_group_def Let_def)

text \<open>
  Claim C10: when the video-id extractor raises, the dictionary it was given is exactly
  as it was before the call.
\<close>

theorem extract_video_id_failure_keeps_state:
  assumes "snd (extract_video_id state) = Inl e"
  shows "fst (extract_video_id state) = state"
  using assms
  by (auto simp: extract_video_id_def Let_def split: pyval.splits option.splits)

theorem extract_video_id_failure_keeps_state_witness:
  "snd (extract_video_id [(''video_url'', PStr ''https://example.com''), (''video_id'', PNone)])
     = Inl (ValueError ''Could not extract video ID from URL'')
   \<and> fst (extract_video_id [(''video_url'', PStr ''https://example.com''), (''video_id'', PNone)])
     = [(''video_url'', PStr ''https://example.com''), (''video_id'', PNone)]"
proof -
  have h: "snd (extract_video_id [(''video_url'', PStr ''https://example.com''), (''video_id'', PNone)])
     = Inl (ValueError ''Could not extract video ID from URL'')"
    by (simp add: extract_video_id_def py_or_def dict_get_def match_here_def match_group_def
          id_char_def)
  from extract_video_id_failure_keeps_state [OF h] h show ?thesis by simp
qed


section \<open>The transcript-failure branch and the unparsable URL\<close>

text \<open>
  Claim C1: when the video id has been extracted and the transcript fetcher returns the
  empty string or a string containing \<^verbatim>\<open>Failed after multiple retries\<close>, the endpoint
  returns the one-entry dictionary with key \<^verbatim>\<open>error\<close> and the text
  \<^verbatim>\<open>Transcript not available for: \<close> followed by the request's \<^verbatim>\<open>video_url\<close>, with
  status 200, and the transcript fetch is the only collaborator call of the run.
\<close>

theorem transcript_unavailable_response:
  assumes "extract_video_id (initial_state request) = (state1, Inr r)"
      and "get_transcript_with_backoff c state1 = Inr (state2, PStr t)"
      and "t = [] \<or> sublist ''Failed after multiple retries'' t"
  shows "run_pipeline c request =
           ([Call FetchTranscript state1],
            Returned [(''error'',
                       PStr (''Transcript not available for: '' @ video_url request))])
         \<and> status_code (snd (run_pipeline c request)) = Some 200"
proof -
  have "transcript_missing (PStr t) = Inr True"
    using assms(3) by (auto simp: transcript_missing_def)
  then show ?thesis
    using assms(1,2)
    by (simp add: run_pipeline_def full_pipeline_def Let_def invoke_def lift_def ret_def)
qed

theorem transcript_unavailable_response_witness:
  "run_pipeline failing_transcript_collaborators example_request =
     ([Call FetchTranscript
         (dict_set ''video_id'' (PStr ''abc12345678'') (initial_state example_request))],
      Returned [(''error'',
                 PStr ''Transcript not available for: https://youtu.be/abc12345678'')])
   \<and> status_code (snd (run_pipeline failing_transcript_collaborators example_request)) = Some 200"
proof -
  let ?s1 = "dict_set ''video_id'' (PStr ''abc12345678'') (initial_state example_request)"
  have url: "re_search ''https://youtu.be/abc12345678'' = Some ''abc12345678''"
    by (simp add: match_here_def match_group_def id_char_def)
  have h1: "extract_video_id (initial_state example_request) = (?s1, Inr ?s1)"
    using url
    by (simp add: extract_video_id_def Let_def example_request_def del: dict_set.simps)
  have h2: "get_transcript_with_backoff failing_transcript_collaborators ?s1
              = Inr (?s1, PStr ''Error: Failed after multiple retries'')"
    by (simp add: failing_transcript_collaborators_def example_collaborators_def)
  have h3: "''Error: Failed after multiple retries'' = []
              \<or> sublist ''Failed after multiple retries'' ''Error: Failed after multiple retries''"
    by (simp add: sublist_Cons_right)
  from transcript_unavailable_response [OF h1 h2 h3] show ?thesis
    by (simp add: example_request_def)
qed

text \<open>
  Claim C4: when the search finds no video id in the request's \<^verbatim>\<open>video_url\<close>, the
  extractor's \<^verbatim>\<open>ValueError\<close> leaves the orchestrator as it was raised, the endpoint raises
  the HTTP exception with status 500 and detail
  \<^verbatim>\<open>Could not extract video ID from URL\<close>, and the call log is empty: neither the
  transcript fetcher nor any generator was invoked.
\<close>

theorem unparsable_url_response:
  assumes "re_search (video_url request) = None"
  shows "full_pipeline c (initial_state request) =
           ([], Inl (ValueError ''Could not extract video ID from URL''))
         \<and> run_pipeline c request =
           ([], HTTPException 500 ''Could not extract video ID from URL'')"
  using assms
  by (simp add: run_pipeline_def full_pipeline_def extract_video_id_def Let_def raise_def)

theorem unparsable_url_response_witness:
  "re_search (video_url (example_request\<lparr>video_url := ''https://example.com''\<rparr>)) = None
   \<and> run_pipeline example_collaborators (example_request\<lparr>video_url := ''https://example.com''\<rparr>)
       = ([], HTTPException 500 ''Could not extract video ID from URL'')"
proof -
  have h: "re_search (video_url (example_request\<lparr>video_url := ''https://example.com''\<rparr>)) = None"
    by (simp add: match_here_def match_group_def id_char_def)
  from unparsable_url_response [OF h] h show ?thesis by simp
qed

section \<open>The success path\<close>

text \<open>
  Claim C2: when every step of the pipeline succeeds for a request, that is, the video id
  is extracted, the transcript is a non-empty string without the failure marker, each
  collaborator returns at the state it is given, and the state returned by the rewriter
  has a dictionary under \<^verbatim>\<open>final_blog\<close> with a value \<open>v\<close> under \<^verbatim>\<open>Polished_Blog\<close>, then
  the response has status 200 and its body is exactly the one-entry dictionary
  \<^verbatim>\<open>{"Final_Blog": v}\<close>.
\<close>

theorem full_success_response:
  assumes "extract_video_id (initial_state request) = (s1, Inr r)"
    and "get_transcript_with_backoff c s1 = Inr (s2, PStr t)"
    and "t \<noteq> []" and "\<not> sublist ''Failed after multiple retries'' t"
    and "extract_specific_details c (dict_set ''transcript'' (PStr t) s2) = Inr (s3, r3)"
    and "generate_topic_keyword c s3 = Inr (s4, r4)"
    and "generate_intro c (dict_set ''combined_data_keyword_specific_details''
                             (combined_data_keyword_specific_details s4) s4) = Inr s5"
    and "refine_intro c s5 = Inr s6"
    and "generate_guide c s6 = Inr s7"
    and "generate_issue_troubleshooting c s7 = Inr s8"
    and "generate_conclusion c s8 = Inr s9"
    and "generate_cta c s9 = Inr s10"
    and "generate_customization_tips c s10 = Inr s11"
    and "domain_aligned c (dict_set ''combined_data'' (combined_data s11) s11) = Inr s12"
    and "rewrite_blog c s12 = Inr s13"
    and "map_of s13 ''final_blog'' = Some (PDict fb)"
    and "map_of fb ''Polished_Blog'' = Some v"
  shows "snd (run_pipeline c request) = Returned [(''Final_Blog'', v)]
         \<and> status_code (snd (run_pipeline c request)) = Some 200
         \<and> response_body (snd (run_pipeline c request)) = Some [(''Final_Blog'', v)]"
proof -
  have "final_blog_payload s13 = Inr v"
    using assms(16,17) by (simp add: final_blog_payload_def)
  with full_pipeline_calls(2) [OF assms(1-14)] assms(15)
  have "snd (full_pipeline c (initial_state request)) = Inr [(''Final_Blog'', v)]"
    by simp
  then show ?thesis
    by (simp add: snd_run_pipeline)
qed

theorem full_success_response_witness:
  "snd (run_pipeline example_collaborators example_request)
     = Returned [(''Final_Blog'', PStr ''blog'')]
   \<and> status_code (snd (run_pipeline example_collaborators example_request)) = Some 200
   \<and> response_body (snd (run_pipeline example_collaborators example_request))
     = Some [(''Final_Blog'', PStr ''blog'')]"
proof -
  let ?c = example_collaborators
  let ?s1 = "dict_set ''video_id'' (PStr ''abc12345678'') (initial_state example_request)"
  let ?s3 = "dict_set ''extracted_section'' (PStr ''details'')
               (dict_set ''transcript'' (PStr ''hello'') ?s1)"
  let ?s4 = "dict_set ''extracted_keywords'' (PStr ''keywords'') ?s3"
  let ?s5 = "dict_set ''combined_data_keyword_specific_details''
               (combined_data_keyword_specific_details ?s4) ?s4"
  let ?s12 = "dict_set ''combined_data'' (combined_data ?s5) ?s5"
  let ?s13 = "dict_set ''final_blog'' (PDict [(''Polished_Blog'', PStr ''blog'')]) ?s12"
  have url: "re_search ''https://youtu.be/abc12345678'' = Some ''abc12345678''"
    by (simp add: match_here_def match_group_def id_char_def)
  have h1: "extract_video_id (initial_state example_request) = (?s1, Inr ?s1)"
    using url
    by (simp add: extract_video_id_def Let_def example_request_def del: dict_set.simps)
  have h2: "get_transcript_with_backoff ?c ?s1 = Inr (?s1, PStr ''hello'')"
    by (simp add: example_collaborators_def)
  have h3: "''hello'' \<noteq> []" by simp
  have h4: "\<not> sublist ''Failed after multiple retries'' ''hello''"
    by (simp add: sublist_Cons_right)
  have h5: "extract_specific_details ?c (dict_set ''transcript'' (PStr ''hello'') ?s1)
              = Inr (?s3, PNone)"
    by (simp add: example_collaborators_def)
  have h6: "generate_topic_keyword ?c ?s3 = Inr (?s4, PNone)"
    by (simp add: example_collaborators_def)
  have h7: "generate_intro ?c ?s5 = Inr ?s5" by (simp add: example_collaborators_def)
  have h8: "refine_intro ?c ?s5 = Inr ?s5" by (simp add: example_collaborators_def)
  have h9: "generate_guide ?c ?s5 = Inr ?s5" by (simp add: example_collaborators_def)
  have h10: "generate_issue_troubleshooting ?c ?s5 = Inr ?s5"
    by (simp add: example_collaborators_def)
  have h11: "generate_conclusion ?c ?s5 = Inr ?s5" by (simp add: example_collaborators_def)
  have h12: "generate_cta ?c ?s5 = Inr ?s5" by (simp add: example_collaborators_def)
  have h13: "generate_customization_tips ?c ?s5 = Inr ?s5"
    by (simp add: example_collaborators_def)
  have h14: "domain_aligned ?c ?s12 = Inr ?s12" by (simp add: example_collaborators_def)
  have h15: "rewrite_blog ?c ?s12 = Inr ?s13" by (simp add: example_collaborators_def)
  have h16: "map_of ?s13 ''final_blog'' = Some (PDict [(''Polished_Blog'', PStr ''blog'')])"
    by (rule map_of_dict_set)
  have h17: "map_of [(''Polished_Blog'', PStr ''blog'')] ''Polished_Blog'' = Some (PStr ''blog'')"
    by simp
  show ?thesis
    by (rule full_success_response
          [OF h1 h2 h3 h4 h5 h6 h7 h8 h9 h10 h11 h12 h13 h14 h15 h16 h17])
qed

text \<open>
  Claim C5, as the code has it: when the transcript fetch succeeds (a non-empty string
  without the failure marker) and each collaborator before the blog rewriter returns at
  the state it is given, the collaborator calls of the run are exactly the transcript
  fetch followed by specific-details extraction, topic-keyword generation, intro
  generation, intro refinement, guide, issue troubleshooting, conclusion, CTA,
  customization tips, domain alignment and blog rewriting, each once and in this order.
  Each call receives the state that the step before it left or returned, with what the
  orchestrator wrote in between (\<^verbatim>\<open>transcript\<close>,
  \<^verbatim>\<open>combined_data_keyword_specific_details\<close>, \<^verbatim>\<open>combined_data\<close>).
\<close>

theorem steps_once_in_order:
  assumes "extract_video_id state0 = (s1, Inr r)"
    and "get_transcript_with_backoff c s1 = Inr (s2, PStr t)"
    and "t \<noteq> []" and "\<not> sublist ''Failed after multiple retries'' t"
    and "extract_specific_details c (dict_set ''transcript'' (PStr t) s2) = Inr (s3, r3)"
    and "generate_topic_keyword c s3 = Inr (s4, r4)"
    and "generate_intro c (dict_set ''combined_data_keyword_specific_details''
                             (combined_data_keyword_specific_details s4) s4) = Inr s5"
    and "refine_intro c s5 = Inr s6"
    and "generate_guide c s6 = Inr s7"
    and "generate_issue_troubleshooting c s7 = Inr s8"
    and "generate_conclusion c s8 = Inr s9"
    and "generate_cta c s9 = Inr s10"
    and "generate_customization_tips c s10 = Inr s11"
    and "domain_aligned c (dict_set ''combined_data'' (combined_data s11) s11) = Inr s12"
  shows "fst (full_pipeline c state0) =
           [Call FetchTranscript s1,
            Call ExtractSpecificDetails (dict_set ''transcript'' (PStr t) s2),
            Call GenerateTopicKeyword s3,
            Call GenerateIntro (dict_set ''combined_data_keyword_specific_details''
                                  (combined_data_keyword_specific_details s4) s4),
            Call RefineIntro s5,
            Call GenerateGuide s6,
            Call GenerateIssueTroubleshooting s7,
            Call GenerateConclusion s8,
            Call GenerateCTA s9,
            Call GenerateCustomizationTips s10,
            Call DomainAligned (dict_set ''combined_data'' (combined_data s11) s11),
            Call RewriteBlog s12]"
  by (rule full_pipeline_calls(1) [OF assms])

theorem steps_once_in_order_witness:
  "map call_step (fst (full_pipeline example_collaborators example_state)) =
     [FetchTranscript, ExtractSpecificDetails, GenerateTopicKeyword, GenerateIntro,
      RefineIntro, GenerateGuide, GenerateIssueTroubleshooting, GenerateConclusion,
      GenerateCTA, GenerateCustomizationTips, DomainAligned, RewriteBlog]"
proof -
  let ?c = example_collaborators
  let ?s1 = "dict_set ''video_id'' (PStr ''abc12345678'') example_state"
  let ?s3 = "dict_set ''extracted_section'' (PStr ''details'')
               (dict_set ''transcript'' (PStr ''hello'') ?s1)"
  let ?s4 = "dict_set ''extracted_keywords'' (PStr ''keywords'') ?s3"
  let ?s5 = "dict_set ''combined_data_keyword_specific_details''
               (combined_data_keyword_specific_details ?s4) ?s4"
  let ?s12 = "dict_set ''combined_data'' (combined_data ?s5) ?s5"
  have url: "re_search ''watch?v=abc12345678'' = Some ''abc12345678''"
    by (simp add: match_here_def match_group_def id_char_def)
  have h1: "extract_video_id example_state = (?s1, Inr ?s1)"
    using url
    by (simp add: extract_video_id_def Let_def example_state_def py_or_def dict_get_def
          del: dict_set.simps)
  have h2: "get_transcript_with_backoff ?c ?s1 = Inr (?s1, PStr ''hello'')"
    by (simp add: example_collaborators_def)
  have h3: "''hello'' \<noteq> []" by simp
  have h4: "\<not> sublist ''Failed after multiple retries'' ''hello''"
    by (simp add: sublist_Cons_right)
  have h5: "extract_specific_details ?c (dict_set ''transcript'' (PStr ''hello'') ?s1)
              = Inr (?s3, PNone)"
    by (simp add: example_collaborators_def)
  have h6: "generate_topic_keyword ?c ?s3 = Inr (?s4, PNone)"
    by (simp add: example_collaborators_def)
  have h7: "generate_intro ?c ?s5 = Inr ?s5" by (simp add: example_collaborators_def)
  have h8: "refine_intro ?c ?s5 = Inr ?s5" by (simp add: example_collaborators_def)
  have h9: "generate_guide ?c ?s5 = Inr ?s5" by (simp add: example_collaborators_def)
  have h10: "generate_issue_troubleshooting ?c ?s5 = Inr ?s5"
    by (simp add: example_collaborators_def)
  have h11: "generate_conclusion ?c ?s5 = Inr ?s5" by (simp add: example_collaborators_def)
  have h12: "generate_cta ?c ?s5 = Inr ?s5" by (simp add: example_collaborators_def)
  have h13: "generate_customization_tips ?c ?s5 = Inr ?s5"
    by (simp add: example_collaborators_def)
  have h14: "domain_aligned ?c ?s12 = Inr ?s12" by (simp add: example_collaborators_def)
  show ?thesis
    unfolding steps_once_in_order [OF h1 h2 h3 h4 h5 h6 h7 h8 h9 h10 h11 h12 h13 h14]
    by simp
qed

text \<open>
  Claim C5 as stated does not hold: here the transcript fetch succeeds and the first
  generator raises, so the run makes two collaborator calls and the ten steps after the
  first generator are never invoked.
\<close>

theorem steps_after_raise_counterexample:
  "get_transcript_with_backoff failing_details_collaborators
       (dict_set ''video_id'' (PStr ''abc12345678'') example_state)
     = Inr (dict_set ''video_id'' (PStr ''abc12345678'') example_state, PStr ''hello'')
   \<and> map call_step (fst (full_pipeline failing_details_collaborators example_state))
     = [FetchTranscript, ExtractSpecificDetails]
   \<and> snd (full_pipeline failing_details_collaborators example_state)
     = Inl (Raised ''details failed'')"
proof -
  have url: "re_search ''watch?v=abc12345678'' = Some ''abc12345678''"
    by (simp add: match_here_def match_group_def id_char_def)
  have m: "transcript_missing (PStr ''hello'') = Inr False"
    by (simp add: transcript_missing_def sublist_Cons_right)
  show ?thesis
    using url m
    by (simp add: full_pipeline_def extract_video_id_def Let_def example_state_def py_or_def
          dict_get_def invoke_def lift_def failing_details_collaborators_def
          example_collaborators_def)
qed

text \<open>
  Claim C7: in every run that reaches the construction (the video id is extracted, the
  transcript passes the check, and the first two generators return), the state handed to
  the intro generator is the state left by the topic-keyword generator with
  \<^verbatim>\<open>combined_data_keyword_specific_details\<close> set to exactly the two-entry dictionary of
  \<^verbatim>\<open>topic_keyword\<close>, the value then stored under \<^verbatim>\<open>extracted_keywords\<close>, and
  \<^verbatim>\<open>specific_details\<close>, the value then stored under \<^verbatim>\<open>extracted_section\<close> (\<^verbatim>\<open>None\<close> for a
  key that is not there).
\<close>

theorem combined_keyword_details_at_construction:
  assumes "extract_video_id state0 = (s1, Inr r)"
    and "get_transcript_with_backoff c s1 = Inr (s2, transcript)"
    and "transcript_missing transcript = Inr False"
    and "extract_specific_details c (dict_set ''transcript'' transcript s2) = Inr (s3, r3)"
    and "generate_topic_keyword c s3 = Inr (s4, r4)"
    and "state' = dict_set ''combined_data_keyword_specific_details''
                    (PDict [(''topic_keyword'', dict_get s4 ''extracted_keywords''),
                            (''specific_details'', dict_get s4 ''extracted_section'')]) s4"
  shows "take 4 (fst (full_pipeline c state0)) =
           [Call FetchTranscript s1,
            Call ExtractSpecificDetails (dict_set ''transcript'' transcript s2),
            Call GenerateTopicKeyword s3,
            Call GenerateIntro state']
         \<and> dict_get state' ''combined_data_keyword_specific_details'' =
             PDict [(''topic_keyword'', dict_get s4 ''extracted_keywords''),
                    (''specific_details'', dict_get s4 ''extracted_section'')]"
proof -
  have "take 4 (fst (full_pipeline c state0)) =
           [Call FetchTranscript s1,
            Call ExtractSpecificDetails (dict_set ''transcript'' transcript s2),
            Call GenerateTopicKeyword s3,
            Call GenerateIntro state']"
    using assms(1-6)
    by (simp add: full_pipeline_def Let_def invoke_def lift_def ret_def fst_run_bind
          combined_data_keyword_specific_details_def del: run_bind_Inr run_bind_Inl)
  moreover have "dict_get state' ''combined_data_keyword_specific_details'' =
             PDict [(''topic_keyword'', dict_get s4 ''extracted_keywords''),
                    (''specific_details'', dict_get s4 ''extracted_section'')]"
    unfolding assms(6) by (rule dict_get_dict_set)
  ultimately show ?thesis ..
qed

theorem combined_keyword_details_at_construction_witness:
  "dict_get
     (dict_set ''combined_data_keyword_specific_details''
        (PDict [(''topic_keyword'', PStr ''keywords''), (''specific_details'', PStr ''details'')])
        (dict_set ''extracted_keywords'' (PStr ''keywords'')
           (dict_set ''extracted_section'' (PStr ''details'')
              (dict_set ''transcript'' (PStr ''hello'')
                 (dict_set ''video_id'' (PStr ''abc12345678'') example_state)))))
     ''combined_data_keyword_specific_details''
   = PDict [(''topic_keyword'', PStr ''keywords''), (''specific_details'', PStr ''details'')]
   \<and> map call_step (take 4 (fst (full_pipeline example_collaborators example_state)))
     = [FetchTranscript, ExtractSpecificDetails, GenerateTopicKeyword, GenerateIntro]"
proof -
  let ?c = example_collaborators
  let ?s1 = "dict_set ''video_id'' (PStr ''abc12345678'') example_state"
  let ?s3 = "dict_set ''extracted_section'' (PStr ''details'')
               (dict_set ''transcript'' (PStr ''hello'') ?s1)"
  let ?s4 = "dict_set ''extracted_keywords'' (PStr ''keywords'') ?s3"
  let ?s5 = "dict_set ''combined_data_keyword_specific_details''
               (PDict [(''topic_keyword'', PStr ''keywords''),
                       (''specific_details'', PStr ''details'')]) ?s4"
  have url: "re_search ''watch?v=abc12345678'' = Some ''abc12345678''"
    by (simp add: match_here_def match_group_def id_char_def)
  have h1: "extract_video_id example_state = (?s1, Inr ?s1)"
    using url
    by (simp add: extract_video_id_def Let_def example_state_def py_or_def dict_get_def
          del: dict_set.simps)
  have h2: "get_transcript_with_backoff ?c ?s1 = Inr (?s1, PStr ''hello'')"
    by (simp add: example_collaborators_def)
  have h3: "transcript_missing (PStr ''hello'') = Inr False"
    by (simp add: transcript_missing_def sublist_Cons_right)
  have h5: "extract_specific_details ?c (dict_set ''transcript'' (PStr ''hello'') ?s1)
              = Inr (?s3, PNone)"
    by (simp add: example_collaborators_def)
  have h6: "generate_topic_keyword ?c ?s3 = Inr (?s4, PNone)"
    by (simp add: example_collaborators_def)
  have h7: "?s5 = dict_set ''combined_data_keyword_specific_details''
                    (PDict [(''topic_keyword'', dict_get ?s4 ''extracted_keywords''),
                            (''specific_details'', dict_get ?s4 ''extracted_section'')]) ?s4"
    by (simp add: example_state_def dict_get_def)
  from combined_keyword_details_at_construction [OF h1 h2 h3 h5 h6 h7]
  show ?thesis
    by (simp add: example_state_def dict_get_def)
qed



section \<open>Results and exceptions\<close>

lemma full_pipeline_returns:
  assumes "snd (full_pipeline c state) = Inr results"
  shows "\<exists>s1 r s2 transcript missing.
           extract_video_id state = (s1, Inr r)
         \<and> get_transcript_with_backoff c s1 = Inr (s2, transcript)
         \<and> transcript_missing transcript = Inr missing
         \<and> map fst results = (if missing then [''error''] else [''Final_Blog''])"
proof -
  obtain s1 o1 where e: "extract_video_id state = (s1, o1)"
    by (cases "extract_video_id state")
  show ?thesis
  proof (cases o1)
    case (Inl x)
    with e assms show ?thesis
      by (simp add: full_pipeline_def Let_def raise_def)
  next
    case r: (Inr r)
    show ?thesis
    proof (cases "get_transcript_with_backoff c s1")
      case (Inl x)
      with e r assms show ?thesis
        by (simp add: full_pipeline_def Let_def invoke_def)
    next
      case (Inr p)
      obtain s2 transcript where p: "p = (s2, transcript)" by (cases p)
      show ?thesis
      proof (cases "transcript_missing transcript")
        case (Inl x)
        with e r Inr p assms show ?thesis
          by (simp add: full_pipeline_def Let_def invoke_def lift_def)
      next
        case m: (Inr missing)
        have "map fst results = (if missing then [''error''] else [''Final_Blog''])"
          using e r Inr p m assms
          by (auto simp: full_pipeline_def Let_def invoke_def lift_def ret_def snd_run_bind
                simp del: run_bind_Inr run_bind_Inl
                split: sum.splits prod.splits if_splits)
        with e r Inr p m show ?thesis by blast
      qed
    qed
  qed
qed

lemma example_state_success:
  "snd (full_pipeline example_collaborators example_state)
     = Inr [(''Final_Blog'', PStr ''blog'')]"
proof -
  let ?c = example_collaborators
  let ?s1 = "dict_set ''video_id'' (PStr ''abc12345678'') example_state"
  let ?s3 = "dict_set ''extracted_section'' (PStr ''details'')
               (dict_set ''transcript'' (PStr ''hello'') ?s1)"
  let ?s4 = "dict_set ''extracted_keywords'' (PStr ''keywords'') ?s3"
  let ?s5 = "dict_set ''combined_data_keyword_specific_details''
               (combined_data_keyword_specific_details ?s4) ?s4"
  let ?s12 = "dict_set ''combined_data'' (combined_data ?s5) ?s5"
  let ?s13 = "dict_set ''final_blog'' (PDict [(''Polished_Blog'', PStr ''blog'')]) ?s12"
  have url: "re_search ''watch?v=abc12345678'' = Some ''abc12345678''"
    by (simp add: match_here_def match_group_def id_char_def)
  have h1: "extract_video_id example_state = (?s1, Inr ?s1)"
    using url
    by (simp add: extract_video_id_def Let_def example_state_def py_or_def dict_get_def
          del: dict_set.simps)
  have h2: "get_transcript_with_backoff ?c ?s1 = Inr (?s1, PStr ''hello'')"
    by (simp add: example_collaborators_def)
  have h3: "''hello'' \<noteq> []" by simp
  have h4: "\<not> sublist ''Failed after multiple retries'' ''hello''"
    by (simp add: sublist_Cons_right)
  have h5: "extract_specific_details ?c (dict_set ''transcript'' (PStr ''hello'') ?s1)
              = Inr (?s3, PNone)"
    by (simp add: example_collaborators_def)
  have h6: "generate_topic_keyword ?c ?s3 = Inr (?s4, PNone)"
    by (simp add: example_collaborators_def)
  have h7: "generate_intro ?c ?s5 = Inr ?s5" by (simp add: example_collaborators_def)
  have h8: "refine_intro ?c ?s5 = Inr ?s5" by (simp add: example_collaborators_def)
  have h9: "generate_guide ?c ?s5 = Inr ?s5" by (simp add: example_collaborators_def)
  have h10: "generate_issue_troubleshooting ?c ?s5 = Inr ?s5"
    by (simp add: example_collaborators_def)
  have h11: "generate_conclusion ?c ?s5 = Inr ?s5" by (simp add: example_collaborators_def)
  have h12: "generate_cta ?c ?s5 = Inr ?s5" by (simp add: example_collaborators_def)
  have h13: "generate_customization_tips ?c ?s5 = Inr ?s5"
    by (simp add: example_collaborators_def)
  have h14: "domain_aligned ?c ?s12 = Inr ?s12" by (simp add: example_collaborators_def)
  have h15: "rewrite_blog ?c ?s12 = Inr ?s13" by (simp add: example_collaborators_def)
  have "map_of ?s13 ''final_blog'' = Some (PDict [(''Polished_Blog'', PStr ''blog'')])"
    by (rule map_of_dict_set)
  then have h16: "final_blog_payload ?s13 = Inr (PStr ''blog'')"
    by (simp add: final_blog_payload_def)
  show ?thesis
    unfolding full_pipeline_calls(2) [OF h1 h2 h3 h4 h5 h6 h7 h8 h9 h10 h11 h12 h13 h14]
    by (simp add: h15 h16)
qed

text \<open>
  Claim C9: whenever the orchestrator returns a result instead of raising, the result has
  exactly one key, and that key is either \<^verbatim>\<open>error\<close> or \<^verbatim>\<open>Final_Blog\<close>; so it never has both
  keys and never neither. Which of the two it is follows the path: in such a run the video
  id was extracted and the transcript fetcher returned, and the key is \<^verbatim>\<open>error\<close> when the
  check \<^verbatim>\<open>not transcript or "Failed after multiple retries" in transcript\<close> holds of the
  transcript, and \<^verbatim>\<open>Final_Blog\<close> when it does not.
\<close>

theorem result_has_one_key:
  assumes "snd (full_pipeline c state) = Inr results"
  shows "(map fst results = [''error''] \<or> map fst results = [''Final_Blog''])
         \<and> ((''error'' \<in> fst ` set results) \<noteq> (''Final_Blog'' \<in> fst ` set results))
         \<and> (\<exists>s1 r s2 transcript missing.
               extract_video_id state = (s1, Inr r)
             \<and> get_transcript_with_backoff c s1 = Inr (s2, transcript)
             \<and> transcript_missing transcript = Inr missing
             \<and> map fst results = (if missing then [''error''] else [''Final_Blog'']))"
proof -
  from full_pipeline_returns [OF assms]
  obtain s1 r s2 transcript missing where
    path: "extract_video_id state = (s1, Inr r)"
          "get_transcript_with_backoff c s1 = Inr (s2, transcript)"
          "transcript_missing transcript = Inr missing"
          "map fst results = (if missing then [''error''] else [''Final_Blog''])"
    by blast
  from path(4) have keys: "map fst results = [''error''] \<or> map fst results = [''Final_Blog'']"
    by (cases missing) simp_all
  from keys
  have "(''error'' \<in> fst ` set results) \<noteq> (''Final_Blog'' \<in> fst ` set results)"
    unfolding set_map [symmetric] by auto
  with keys path show ?thesis by blast
qed

text \<open>
  Both paths at concrete inputs: a transcript with the failure marker gives the key
  \<^verbatim>\<open>error\<close>, and a run in which every step returns gives the key \<^verbatim>\<open>Final_Blog\<close>.
\<close>

theorem result_has_one_key_witness:
  "snd (full_pipeline failing_transcript_collaborators example_state)
     = Inr [(''error'', PStr ''Transcript not available for: watch?v=abc12345678'')]
   \<and> transcript_missing (PStr ''Error: Failed after multiple retries'') = Inr True
   \<and> map fst [(''error'', PStr ''Transcript not available for: watch?v=abc12345678'')]
       = [''error'']
   \<and> snd (full_pipeline example_collaborators example_state)
     = Inr [(''Final_Blog'', PStr ''blog'')]
   \<and> transcript_missing (PStr ''hello'') = Inr False
   \<and> map fst [(''Final_Blog'', PStr ''blog'')] = [''Final_Blog'']"
proof -
  have url: "re_search ''watch?v=abc12345678'' = Some ''abc12345678''"
    by (simp add: match_here_def match_group_def id_char_def)
  have m1: "transcript_missing (PStr ''Error: Failed after multiple retries'') = Inr True"
    by (simp add: transcript_missing_def sublist_Cons_right)
  have m2: "transcript_missing (PStr ''hello'') = Inr False"
    by (simp add: transcript_missing_def sublist_Cons_right)
  have h1: "snd (full_pipeline failing_transcript_collaborators example_state)
     = Inr [(''error'', PStr ''Transcript not available for: watch?v=abc12345678'')]"
    using url m1
    by (simp add: full_pipeline_def extract_video_id_def Let_def example_state_def py_or_def
          dict_get_def invoke_def lift_def ret_def failing_transcript_collaborators_def
          example_collaborators_def)
  note h2 = example_state_success
  from result_has_one_key [OF h1] result_has_one_key [OF h2] h1 h2 m1 m2
  show ?thesis by simp
qed





end
